theory Spec2Isabelle
  imports Complex_Main "HOL-Library.Word" "HOL-Library.Log_Nat"
begin

section \<open>JavaScript strings and numbers\<close>

text \<open>
  A JavaScript string is a sequence of UTF-16 code units. String literals of the program
  are written through \<open>js\<close>, which maps each character to its code unit; the accented
  letters of the Portuguese messages are given by their code units (all below 256).
\<close>

type_synonym jsstring = "16 word list"

definition js :: "string \<Rightarrow> jsstring" where
  "js s = map of_char s"

text \<open>
  \<open>String.prototype.trim\<close> removes leading and trailing white space and line
  terminators, as ECMAScript defines them.
\<close>

definition isWhiteSpace :: "16 word \<Rightarrow> bool" where
  "isWhiteSpace c \<longleftrightarrow>
     c \<in> {0x9, 0xA, 0xB, 0xC, 0xD, 0x20, 0xA0, 0x1680, 0x2028, 0x2029, 0x202F, 0x205F,
          0x3000, 0xFEFF}
     \<or> (0x2000 \<le> c \<and> c \<le> 0x200A)"

definition trim :: "jsstring \<Rightarrow> jsstring" where
  "trim s = rev (dropWhile isWhiteSpace (rev (dropWhile isWhiteSpace s)))"

text \<open>
  Truthiness of a value that is \<open>null\<close>/\<open>undefined\<close> (\<open>None\<close>) or a string: only
  the non-empty string is truthy.
\<close>

fun truthy :: "jsstring option \<Rightarrow> bool" where
  "truthy None = False"
| "truthy (Some s) = (s \<noteq> [])"

text \<open>
  A number that is either \<open>NaN\<close> or an integer. The program's numbers that matter are
  time values in milliseconds and day counts.
\<close>

datatype jsnum = NaN | Num int

section \<open>Messages of the blocking dialog\<close>

definition msgWaitInitSave :: jsstring where
  "msgWaitInitSave = js ''Por favor, aguarde a inicializa'' @ [0xE7, 0xE3] @ js ''o para salvar.''"

definition msgDrawingSaved :: jsstring where
  "msgDrawingSaved = js ''Desenho salvo com sucesso!''"

definition msgDrawingError :: jsstring where
  "msgDrawingError = js ''Erro ao salvar o desenho. Tente novamente.''"

definition msgLetterEmpty :: jsstring where
  "msgLetterEmpty = js ''A carta n'' @ [0xE3] @ js ''o pode estar vazia.''"

definition msgLetterSaved :: jsstring where
  "msgLetterSaved = js ''Carta salva com sucesso!''"

definition msgLetterError :: jsstring where
  "msgLetterError = js ''Erro ao salvar a carta. Tente novamente.''"

definition msgCardEmpty :: jsstring where
  "msgCardEmpty = js ''O cart'' @ [0xE3] @ js ''o n'' @ [0xE3] @ js ''o pode estar vazio.''"

definition msgCardSaved :: jsstring where
  "msgCardSaved = js ''Cart'' @ [0xE3] @ js ''o salvo com sucesso!''"

definition msgCardError :: jsstring where
  "msgCardError = js ''Erro ao salvar o cart'' @ [0xE3] @ js ''o. Tente novamente.''"

definition msgWaitInitMood :: jsstring where
  "msgWaitInitMood =
     js ''Por favor, aguarde a inicializa'' @ [0xE7, 0xE3] @ js ''o para registrar o humor.''"

definition msgMoodRecorded :: "jsstring \<Rightarrow> jsstring" where
  "msgMoodRecorded mood = js ''Humor registrado: '' @ mood"

definition msgMoodError :: jsstring where
  "msgMoodError = js ''Erro ao registrar o humor. Tente novamente.''"

definition msgWaitInitDate :: jsstring where
  "msgWaitInitDate =
     js ''Por favor, aguarde a inicializa'' @ [0xE7, 0xE3] @ js ''o para salvar a data.''"

definition msgSelectDate :: jsstring where
  "msgSelectDate = js ''Por favor, selecione uma data.''"

definition msgDateSaved :: jsstring where
  "msgDateSaved = js ''Data inicial salva com sucesso!''"

definition msgDateError :: jsstring where
  "msgDateError = js ''Erro ao salvar a data inicial. Tente novamente.''"

definition msgWaitInitPhoto :: jsstring where
  "msgWaitInitPhoto =
     js ''Por favor, aguarde a inicializa'' @ [0xE7, 0xE3] @ js ''o para fazer upload de fotos.''"

definition msgPhotoAdded :: jsstring where
  "msgPhotoAdded = js ''Foto adicionada '' @ [0xE0] @ js '' galeria!''"

definition msgPhotoError :: jsstring where
  "msgPhotoError = js ''Erro ao adicionar a foto. Tente novamente.''"

definition msgConfigMissing :: jsstring where
  "msgConfigMissing =
     js ''Erro: Configura'' @ [0xE7, 0xE3] @ js ''o do Firebase ausente. O aplicativo pode n''
     @ [0xE3] @ js ''o funcionar corretamente.''"

definition msgConfigIncomplete :: jsstring where
  "msgConfigIncomplete =
     js ''Erro: Configura'' @ [0xE7, 0xE3] @ js ''o do Firebase incompleta. O aplicativo pode n''
     @ [0xE3] @ js ''o funcionar corretamente.''"

definition msgInitError :: jsstring where
  "msgInitError = js ''Erro ao inicializar o aplicativo. Por favor, tente novamente.''"

section \<open>The document store\<close>

text \<open>
  The fields the program writes, one constructor per kind of document. The creation
  time (\<open>createdAt\<close>, or \<open>timestamp\<close> for a mood) is \<open>serverTimestamp()\<close>: the store
  assigns it, so it is a field of the stored document, not of what the program sends.
\<close>

datatype fields =
    DrawingF jsstring
  | LetterF jsstring
  | CardF jsstring jsstring
  | MoodF jsstring
  | PhotoF "jsstring option"

record doc =
  doc_id :: jsstring
  doc_fields :: fields
  doc_time :: int

text \<open>
  The store holds collections and single documents under path strings. \<open>write_calls\<close>
  is not part of the store: it counts the calls of \<open>addDoc\<close> and \<open>setDoc\<close>, so that
  the absence of a retry can be stated.
\<close>

record store =
  collections :: "jsstring \<Rightarrow> doc list"
  documents :: "jsstring \<Rightarrow> jsstring option"
  write_calls :: nat

text \<open>
  What the store answers to one write: it acknowledges, assigning the document's id and
  creation time, or the returned promise rejects.
\<close>

datatype write_outcome = Acknowledged jsstring int | Rejected

definition addDoc :: "jsstring \<Rightarrow> fields \<Rightarrow> write_outcome \<Rightarrow> store \<Rightarrow> bool \<times> store" where
  "addDoc path f out st =
     (case out of
        Rejected \<Rightarrow> (False, st\<lparr>write_calls := Suc (write_calls st)\<rparr>)
      | Acknowledged i t \<Rightarrow>
          (True, st\<lparr>collections := (collections st)
                      (path := collections st path @ [\<lparr>doc_id = i, doc_fields = f, doc_time = t\<rparr>]),
                    write_calls := Suc (write_calls st)\<rparr>))"

definition setDoc :: "jsstring \<Rightarrow> jsstring \<Rightarrow> write_outcome \<Rightarrow> store \<Rightarrow> bool \<times> store" where
  "setDoc path v out st =
     (case out of
        Rejected \<Rightarrow> (False, st\<lparr>write_calls := Suc (write_calls st)\<rparr>)
      | Acknowledged i t \<Rightarrow>
          (True, st\<lparr>documents := (documents st)(path := Some v),
                    write_calls := Suc (write_calls st)\<rparr>))"

section \<open>The host environment\<close>

text \<open>
  The result of \<open>JSON.parse(__firebase_config)\<close> followed by \<open>Object.assign\<close> onto the
  empty configuration: a syntax error, or the connection parameters found.
\<close>

record firebase_config =
  apiKey :: "jsstring option"
  authDomain :: "jsstring option"
  projectId :: "jsstring option"
  storageBucket :: "jsstring option"
  messagingSenderId :: "jsstring option"
  appId :: "jsstring option"

datatype json = SyntaxError | JObject firebase_config

text \<open>
  What the program reads from its host: whether \<open>window\<close> and \<open>process\<close> exist, the
  globals a hosting shell may inject, the build-time variables of \<open>process.env\<close>, and two
  platform functions (the canvas encoder and the \<open>Date\<close> constructor on a string).
\<close>

record environment =
  window_defined :: bool
  firebase_config_global :: "json option"
  initial_auth_token_global :: "jsstring option"
  app_id_global :: "jsstring option"
  process_defined :: bool
  REACT_APP_FIREBASE_API_KEY :: "jsstring option"
  REACT_APP_FIREBASE_AUTH_DOMAIN :: "jsstring option"
  REACT_APP_FIREBASE_PROJECT_ID :: "jsstring option"
  REACT_APP_FIREBASE_STORAGE_BUCKET :: "jsstring option"
  REACT_APP_FIREBASE_MESSAGING_SENDER_ID :: "jsstring option"
  REACT_APP_FIREBASE_APP_ID :: "jsstring option"
  toDataURL :: "32 word list \<Rightarrow> jsstring"
  Date_parse :: "jsstring \<Rightarrow> jsnum"

text \<open>The application id used in every store path.\<close>

definition resolveAppId :: "environment \<Rightarrow> jsstring" where
  "resolveAppId env =
     (case app_id_global env of
        Some a \<Rightarrow> a
      | None \<Rightarrow>
          (if process_defined env \<and> truthy (REACT_APP_FIREBASE_APP_ID env)
           then the (REACT_APP_FIREBASE_APP_ID env) else js ''default-app-id''))"

definition userPath :: "environment \<Rightarrow> jsstring \<Rightarrow> string \<Rightarrow> jsstring" where
  "userPath env uid resource =
     js ''artifacts/'' @ resolveAppId env @ js ''/users/'' @ uid @ js ''/'' @ js resource"

section \<open>The application state\<close>

record app_state =
  db :: "firebase_config option"
  auth :: "firebase_config option"
  userId :: "jsstring option"
  isAuthReady :: bool
  showMessageModal :: bool
  modalContent :: jsstring
  messageLog :: "jsstring list"
  canvas :: "32 word list option"
  letterContent :: jsstring
  cardText :: jsstring
  cardBgColor :: jsstring
  currentMood :: jsstring
  moods :: "doc list"
  startDate :: "jsstring option"
  daysKnown :: jsnum

text \<open>
  The initial values of the \<open>useState\<close> calls. \<open>messageLog\<close> is not a state of the
  program: it records every call of \<open>showAppMessage\<close>, so that "shown once" can be stated.
  \<open>canvas\<close> is the content of the drawing surface when it is mounted.
\<close>

definition initial_state :: app_state where
  "initial_state =
     \<lparr>db = None, auth = None, userId = None, isAuthReady = False,
      showMessageModal = False, modalContent = [], messageLog = [],
      canvas = None, letterContent = [], cardText = [], cardBgColor = js ''#ffffff'',
      currentMood = [], moods = [], startDate = None, daysKnown = Num 0\<rparr>"

definition showAppMessage :: "jsstring \<Rightarrow> app_state \<Rightarrow> app_state" where
  "showAppMessage message s =
     s\<lparr>modalContent := message, showMessageModal := True,
       messageLog := messageLog s @ [message]\<rparr>"

text \<open>The guard \<open>!userId || !db\<close> that opens every handler that writes.\<close>

definition notReady :: "app_state \<Rightarrow> bool" where
  "notReady s \<longleftrightarrow> \<not> truthy (userId s) \<or> db s = None"

section \<open>Creative studio: drawings, letters, cards\<close>

definition clearCanvas :: "app_state \<Rightarrow> app_state" where
  "clearCanvas s =
     (case canvas s of None \<Rightarrow> s | Some px \<Rightarrow> s\<lparr>canvas := Some (map (\<lambda>_. 0) px)\<rparr>)"

definition saveDrawing ::
  "environment \<Rightarrow> write_outcome \<Rightarrow> app_state \<times> store \<Rightarrow> app_state \<times> store" where
  "saveDrawing env out w =
     (case w of (s, st) \<Rightarrow>
        if notReady s then (showAppMessage msgWaitInitSave s, st)
        else
          (case canvas s of
             None \<Rightarrow> (s, st)
           | Some px \<Rightarrow>
               (case addDoc (userPath env (the (userId s)) ''drawings'')
                       (DrawingF (toDataURL env px)) out st of
                  (True, st') \<Rightarrow> (clearCanvas (showAppMessage msgDrawingSaved s), st')
                | (False, st') \<Rightarrow> (showAppMessage msgDrawingError s, st'))))"

definition saveLetter ::
  "environment \<Rightarrow> write_outcome \<Rightarrow> app_state \<times> store \<Rightarrow> app_state \<times> store" where
  "saveLetter env out w =
     (case w of (s, st) \<Rightarrow>
        if notReady s then (showAppMessage msgWaitInitSave s, st)
        else if trim (letterContent s) = [] then (showAppMessage msgLetterEmpty s, st)
        else
          (case addDoc (userPath env (the (userId s)) ''letters'')
                  (LetterF (letterContent s)) out st of
             (True, st') \<Rightarrow> ((showAppMessage msgLetterSaved s)\<lparr>letterContent := []\<rparr>, st')
           | (False, st') \<Rightarrow> (showAppMessage msgLetterError s, st')))"

text \<open>The card templates, in the order of the source.\<close>

record card_template =
  tpl_name :: jsstring
  tpl_text :: jsstring
  tpl_bgColor :: jsstring

definition cardTemplates :: "card_template list" where
  "cardTemplates =
     [\<lparr>tpl_name = js ''Padr'' @ [0xE3] @ js ''o'', tpl_text = [], tpl_bgColor = js ''#ffffff''\<rparr>,
      \<lparr>tpl_name = js ''Galo Doido'',
       tpl_text = js ''Parab'' @ [0xE9] @ js ''ns! Que a paix'' @ [0xE3]
                  @ js ''o pelo Galo te inspire sempre!'',
       tpl_bgColor = js ''#fcd34d''\<rparr>,
      \<lparr>tpl_name = js ''Manto Sagrado'',
       tpl_text = js ''Feliz Anivers'' @ [0xE1] @ js ''rio! Que a gl'' @ [0xF3]
                  @ js ''ria alvinegra esteja sempre com voc'' @ [0xEA] @ js ''!'',
       tpl_bgColor = js ''#000000''\<rparr>,
      \<lparr>tpl_name = js ''Campo'',
       tpl_text = js ''Que sua vida seja um campo de vit'' @ [0xF3]
                  @ js ''rias! Feliz Anivers'' @ [0xE1] @ js ''rio!'',
       tpl_bgColor = js ''#34d399''\<rparr>]"

definition saveCard ::
  "environment \<Rightarrow> write_outcome \<Rightarrow> app_state \<times> store \<Rightarrow> app_state \<times> store" where
  "saveCard env out w =
     (case w of (s, st) \<Rightarrow>
        if notReady s then (showAppMessage msgWaitInitSave s, st)
        else if trim (cardText s) = [] then (showAppMessage msgCardEmpty s, st)
        else
          (case addDoc (userPath env (the (userId s)) ''cards'')
                  (CardF (cardText s) (cardBgColor s)) out st of
             (True, st') \<Rightarrow>
               ((showAppMessage msgCardSaved s)\<lparr>cardText := [], cardBgColor := js ''#ffffff''\<rparr>,
                st')
           | (False, st') \<Rightarrow> (showAppMessage msgCardError s, st')))"

definition applyCardTemplate :: "card_template \<Rightarrow> app_state \<Rightarrow> app_state" where
  "applyCardTemplate template s =
     s\<lparr>cardText := tpl_text template, cardBgColor := tpl_bgColor template\<rparr>"

section \<open>Mood tracker, day counter, photo gallery\<close>

definition recordMood ::
  "environment \<Rightarrow> jsstring \<Rightarrow> write_outcome \<Rightarrow> app_state \<times> store \<Rightarrow> app_state \<times> store" where
  "recordMood env mood out w =
     (case w of (s, st) \<Rightarrow>
        if notReady s then (showAppMessage msgWaitInitMood s, st)
        else
          (case addDoc (userPath env (the (userId s)) ''moods'') (MoodF mood) out st of
             (True, st') \<Rightarrow> (showAppMessage (msgMoodRecorded mood) (s\<lparr>currentMood := mood\<rparr>), st')
           | (False, st') \<Rightarrow> (showAppMessage msgMoodError s, st')))"

definition saveStartDate ::
  "environment \<Rightarrow> write_outcome \<Rightarrow> app_state \<times> store \<Rightarrow> app_state \<times> store" where
  "saveStartDate env out w =
     (case w of (s, st) \<Rightarrow>
        if notReady s then (showAppMessage msgWaitInitDate s, st)
        else if \<not> truthy (startDate s) then (showAppMessage msgSelectDate s, st)
        else
          (case setDoc (userPath env (the (userId s)) ''daysCounter/data'')
                  (the (startDate s)) out st of
             (True, st') \<Rightarrow> (showAppMessage msgDateSaved s, st')
           | (False, st') \<Rightarrow> (showAppMessage msgDateError s, st')))"

text \<open>
  \<open>file\<close> is \<open>event.target.files[0]\<close>: \<open>None\<close> when no file was picked, otherwise
  what the reader hands to \<open>onloadend\<close> (\<open>reader.result\<close>, \<open>null\<close> after a failed read).
\<close>

definition handlePhotoUpload ::
  "environment \<Rightarrow> jsstring option option \<Rightarrow> write_outcome \<Rightarrow> app_state \<times> store
     \<Rightarrow> app_state \<times> store" where
  "handlePhotoUpload env file out w =
     (case w of (s, st) \<Rightarrow>
        if notReady s then (showAppMessage msgWaitInitPhoto s, st)
        else
          (case file of
             None \<Rightarrow> (s, st)
           | Some result \<Rightarrow>
               (case addDoc (userPath env (the (userId s)) ''photos'') (PhotoF result) out st of
                  (True, st') \<Rightarrow> (showAppMessage msgPhotoAdded s, st')
                | (False, st') \<Rightarrow> (showAppMessage msgPhotoError s, st'))))"

subsection \<open>Subscriptions\<close>

text \<open>
  The subscriptions exist once \<open>isAuthReady && userId && db\<close> holds. The mood
  subscription is on \<open>query(userMoodsRef, orderBy('timestamp', 'desc'))\<close>: the store
  delivers the collection's documents by decreasing timestamp, and the callback maps
  each of \<open>snapshot.docs\<close> to its id and data (a \<open>doc\<close> here), in the same order.
\<close>

definition subscribed :: "app_state \<Rightarrow> bool" where
  "subscribed s \<longleftrightarrow> isAuthReady s \<and> truthy (userId s) \<and> db s \<noteq> None"

definition orderBy_timestamp_desc :: "doc list \<Rightarrow> doc list" where
  "orderBy_timestamp_desc docs = rev (sort_key doc_time docs)"

definition onMoodsSnapshot :: "environment \<Rightarrow> app_state \<times> store \<Rightarrow> app_state \<times> store" where
  "onMoodsSnapshot env w =
     (case w of (s, st) \<Rightarrow>
        if subscribed s
        then (s\<lparr>moods :=
                 orderBy_timestamp_desc (collections st (userPath env (the (userId s)) ''moods''))\<rparr>,
              st)
        else (s, st))"

definition onDaysCounterSnapshot ::
  "environment \<Rightarrow> app_state \<times> store \<Rightarrow> app_state \<times> store" where
  "onDaysCounterSnapshot env w =
     (case w of (s, st) \<Rightarrow>
        if subscribed s
        then (case documents st (userPath env (the (userId s)) ''daysCounter/data'') of
                Some d \<Rightarrow> (s\<lparr>startDate := (if d \<noteq> [] then Some d else None)\<rparr>, st)
              | None \<Rightarrow> (s\<lparr>startDate := None\<rparr>, st))
        else (s, st))"

text \<open>
  The history view lists \<open>moods\<close> in its order, one item per entry (the empty list
  stands for the paragraph shown when there is no entry yet).
\<close>

definition renderMoodHistory :: "app_state \<Rightarrow> (fields \<times> int) list" where
  "renderMoodHistory s = map (\<lambda>moodEntry. (doc_fields moodEntry, doc_time moodEntry)) (moods s)"

subsection \<open>Day counter\<close>

definition msPerDay :: int where
  "msPerDay = 1000 * 60 * 60 * 24"

text \<open>
  The arithmetic of the day counter is in double precision. A time value is an integer
  of magnitude at most 8.64e15, which a double holds exactly; the difference of two of
  them and its quotient by the length of a day are rounded to the nearest double, ties
  to even. \<open>roundHalfEven p d\<close> is the integer nearest to \<open>p / d\<close> (for \<open>d > 0\<close>),
  \<open>doubleOfInt x\<close> the double nearest to the integer \<open>x\<close> (53 significant bits),
  \<open>doubleDiv a b\<close> the double nearest to \<open>a / b\<close> for integers \<open>a \<ge> 0\<close> and \<open>b > 0\<close>:
  the quotient is scaled by a power of two into the range from \<open>2^52\<close> to \<open>2^53\<close>,
  rounded there and scaled back. Exponents beyond the range of a double, which no
  quotient of such integers reaches, are not modelled.
\<close>

definition isTimeValue :: "int \<Rightarrow> bool" where
  "isTimeValue t \<longleftrightarrow> \<bar>t\<bar> \<le> 8640000000000000"

definition roundHalfEven :: "int \<Rightarrow> int \<Rightarrow> int" where
  "roundHalfEven p d =
     (let q = p div d; r = p mod d
      in if 2 * r < d then q else if d < 2 * r then q + 1 else if even q then q else q + 1)"

definition doubleOfInt :: "int \<Rightarrow> int" where
  "doubleOfInt x =
     (let u = 2 ^ nat (bitlen \<bar>x\<bar> - 53) in sgn x * (roundHalfEven \<bar>x\<bar> u * u))"

definition doubleDiv :: "int \<Rightarrow> int \<Rightarrow> real" where
  "doubleDiv a b =
     (if a = 0 then 0
      else
        (let k0 = 53 + bitlen b - bitlen a;
             k = (if b * 2 ^ nat (- k0) * 2 ^ 53 \<le> a * 2 ^ nat k0 then k0 - 1 else k0);
             m = roundHalfEven (a * 2 ^ nat k) (b * 2 ^ nat (- k))
         in real_of_int (m * 2 ^ nat (- k)) / real_of_int (2 ^ nat k)))"

text \<open>
  The effect that derives \<open>daysKnown\<close> from \<open>startDate\<close>; \<open>today\<close> is the time value of
  \<open>new Date()\<close>: \<open>Math.abs(today - start)\<close>, divided by the milliseconds of a day,
  then \<open>Math.ceil\<close>.
\<close>

definition daysKnownEffect :: "environment \<Rightarrow> int \<Rightarrow> app_state \<Rightarrow> app_state" where
  "daysKnownEffect env today s =
     (if truthy (startDate s) then
        (case Date_parse env (the (startDate s)) of
           NaN \<Rightarrow> s\<lparr>daysKnown := NaN\<rparr>
         | Num start \<Rightarrow>
             (let diffTime = \<bar>doubleOfInt (today - start)\<bar>;
                  diffDays = \<lceil>doubleDiv diffTime msPerDay\<rceil>
              in s\<lparr>daysKnown := Num diffDays\<rparr>))
      else s\<lparr>daysKnown := Num 0\<rparr>)"

text \<open>The date input's \<open>onChange\<close>: the picked date goes into the same state at once.\<close>

definition onStartDateChange :: "jsstring \<Rightarrow> app_state \<Rightarrow> app_state" where
  "onStartDateChange v s = s\<lparr>startDate := Some v\<rparr>"

text \<open>
  What the day-counter page shows below the date input and the button: the value of the
  input (\<open>startDate || ''\<close>), and the paragraphs rendered.
\<close>

datatype counter_paragraph = DaysPassed int | SelectPastDate

record counter_page =
  date_input_value :: jsstring
  paragraphs :: "counter_paragraph list"

definition renderDaysCounter :: "app_state \<Rightarrow> counter_page" where
  "renderDaysCounter s =
     \<lparr>date_input_value = (if truthy (startDate s) then the (startDate s) else []),
      paragraphs =
        (case daysKnown s of Num n \<Rightarrow> (if n > 0 then [DaysPassed n] else []) | NaN \<Rightarrow> [])
        @ (if truthy (startDate s) \<and> daysKnown s = Num 0 then [SelectPastDate] else [])\<rparr>"

definition unsetPage :: counter_page where
  "unsetPage = \<lparr>date_input_value = [], paragraphs = []\<rparr>"

text \<open>
  \<open>n\<close> is the absolute difference between \<open>today\<close> and \<open>start\<close> in whole days, a
  partial day counted as a whole one: the ceiling of the difference in days.
\<close>

definition wholeDaysBetween :: "int \<Rightarrow> int \<Rightarrow> int \<Rightarrow> bool" where
  "wholeDaysBetween today start n \<longleftrightarrow>
     (n - 1) * msPerDay < \<bar>today - start\<bar> \<and> \<bar>today - start\<bar> \<le> n * msPerDay"

text \<open>
  Both are time values and their difference is below \<open>2^53\<close> milliseconds, so that a
  double holds it exactly. Every start date a \<open>Date\<close> can hold is in this range of a
  today of this era.
\<close>

definition withinDoublePrecision :: "int \<Rightarrow> int \<Rightarrow> bool" where
  "withinDoublePrecision today start \<longleftrightarrow>
     isTimeValue today \<and> isTimeValue start \<and> \<bar>today - start\<bar> < 2 ^ 53"

section \<open>Startup: configuration and identity\<close>

definition emptyConfig :: firebase_config where
  "emptyConfig =
     \<lparr>apiKey = None, authDomain = None, projectId = None, storageBucket = None,
      messagingSenderId = None, appId = None\<rparr>"

definition envConfig :: "environment \<Rightarrow> firebase_config" where
  "envConfig env =
     \<lparr>apiKey = REACT_APP_FIREBASE_API_KEY env,
      authDomain = REACT_APP_FIREBASE_AUTH_DOMAIN env,
      projectId = REACT_APP_FIREBASE_PROJECT_ID env,
      storageBucket = REACT_APP_FIREBASE_STORAGE_BUCKET env,
      messagingSenderId = REACT_APP_FIREBASE_MESSAGING_SENDER_ID env,
      appId = REACT_APP_FIREBASE_APP_ID env\<rparr>"

text \<open>
  The second half of the startup effect, once \<open>firebaseConfig\<close> is filled: the
  completeness check, then \<open>initializeApp\<close>, \<open>getFirestore\<close> and \<open>getAuth\<close>. The
  handles \<open>db\<close> and \<open>auth\<close> are represented by the configuration they were made from.
\<close>

definition checkAndInitialize :: "firebase_config \<Rightarrow> app_state \<Rightarrow> app_state" where
  "checkAndInitialize firebaseConfig s =
     (if \<not> truthy (apiKey firebaseConfig) \<or> \<not> truthy (authDomain firebaseConfig)
      then showAppMessage msgConfigIncomplete s
      else s\<lparr>db := Some firebaseConfig, auth := Some firebaseConfig\<rparr>)"

text \<open>
  The first half: where the configuration comes from. A syntax error of \<open>JSON.parse\<close>
  is caught by the effect's \<open>try\<close>/\<open>catch\<close>.
\<close>

definition initFirebase :: "environment \<Rightarrow> app_state \<Rightarrow> app_state" where
  "initFirebase env s =
     (if window_defined env then
        (case firebase_config_global env of
           None \<Rightarrow> checkAndInitialize emptyConfig s
         | Some SyntaxError \<Rightarrow> showAppMessage msgInitError s
         | Some (JObject c) \<Rightarrow> checkAndInitialize c s)
      else if process_defined env \<and> truthy (REACT_APP_FIREBASE_API_KEY env) then
        checkAndInitialize (envConfig env) s
      else showAppMessage msgConfigMissing s)"

text \<open>
  The authentication service as the listener sees it: what each sign-in call does. A
  call rejects (the \<open>await\<close> throws), or it resolves and leaves \<open>currentUser?.uid\<close>.
\<close>

datatype signin_result = SignInRejected | SignInResolved "jsstring option"

record auth_service =
  signInWithCustomToken :: signin_result
  signInAnonymously :: signin_result

text \<open>
  The listener given to \<open>onAuthStateChanged\<close>, called with the uid of \<open>user\<close> or
  \<open>None\<close> for \<open>null\<close>. \<open>randomUUID\<close> is what \<open>crypto.randomUUID()\<close> would return. The
  sign-in call is awaited outside any \<open>try\<close>: when it rejects, the listener ends there.
\<close>

definition authStateChanged ::
  "environment \<Rightarrow> auth_service \<Rightarrow> jsstring \<Rightarrow> jsstring option \<Rightarrow> app_state \<Rightarrow> app_state" where
  "authStateChanged env service randomUUID user s =
     (case user of
        Some uid \<Rightarrow> s\<lparr>userId := Some uid, isAuthReady := True\<rparr>
      | None \<Rightarrow>
          (case (if window_defined env \<and> truthy (initial_auth_token_global env)
                 then signInWithCustomToken service else signInAnonymously service) of
             SignInRejected \<Rightarrow> s
           | SignInResolved currentUid \<Rightarrow>
               s\<lparr>userId := Some (if truthy currentUid then the currentUid else randomUUID),
                 isAuthReady := True\<rparr>))"

section \<open>Dates and the game schedule\<close>

text \<open>
  The \<open>Date\<close> functions the schedule uses, on time values in milliseconds since the
  epoch. \<open>MakeDay\<close> is the day number of a year, a month counted from 0 (any integer,
  carried into the year) and a day of the month (any integer, carried into the months);
  \<open>YearMonthDate\<close> is its inverse on day numbers, giving \<open>YearFromTime\<close>,
  \<open>MonthFromTime\<close> and \<open>DateFromTime\<close> together.
\<close>

definition MakeDay :: "int \<Rightarrow> int \<Rightarrow> int \<Rightarrow> int" where
  "MakeDay year month date =
     (let ym = year + month div 12;
          mn = month mod 12;
          y = (if mn \<le> 1 then ym - 1 else ym);
          era = y div 400;
          yoe = y mod 400;
          mp = (if mn \<ge> 2 then mn - 2 else mn + 10);
          doy = (153 * mp + 2) div 5;
          doe = yoe * 365 + yoe div 4 - yoe div 100 + doy
      in era * 146097 + doe - 719468 + date - 1)"

definition YearMonthDate :: "int \<Rightarrow> int \<times> int \<times> int" where
  "YearMonthDate day =
     (let z = day + 719468;
          era = z div 146097;
          doe = z mod 146097;
          yoe = (doe - doe div 1460 + doe div 36524 - doe div 146096) div 365;
          doy = doe - (365 * yoe + yoe div 4 - yoe div 100);
          mp = (5 * doy + 2) div 153;
          d = doy - (153 * mp + 2) div 5 + 1;
          m = (if mp < 10 then mp + 2 else mp - 10);
          y = yoe + era * 400
      in (if m \<le> 1 then y + 1 else y, m, d))"

text \<open>
  \<open>tza\<close> is the host's offset of local time from UTC in milliseconds (positive east
  of Greenwich), constant over the days involved. \<open>newDate\<close> is
  \<open>new Date(year, month, date)\<close>: local midnight of that day as a time value, \<open>NaN\<close>
  outside the range of \<open>Date\<close>.
\<close>

definition getFullYearMonthDate :: "int \<Rightarrow> int \<Rightarrow> int \<times> int \<times> int" where
  "getFullYearMonthDate tza t = YearMonthDate ((t + tza) div msPerDay)"

definition newDate :: "int \<Rightarrow> int \<Rightarrow> int \<Rightarrow> int \<Rightarrow> jsnum" where
  "newDate tza year month date =
     (let yr = (if 0 \<le> year \<and> year \<le> 99 then 1900 + year else year);
          t = MakeDay yr month date * msPerDay - tza
      in if \<bar>t\<bar> \<le> 8640000000000000 then Num t else NaN)"

definition pad :: "nat \<Rightarrow> int \<Rightarrow> jsstring" where
  "pad width n = map (\<lambda>i. of_int (48 + (n div 10 ^ i) mod 10)) (rev [0..<width])"

text \<open>
  \<open>toISOString\<close> renders the time value in UTC, and throws a RangeError (\<open>None\<close>) on
  an invalid date. \<open>split_T_0\<close> is \<open>.split('T')[0]\<close>.
\<close>

definition toISOString :: "jsnum \<Rightarrow> jsstring option" where
  "toISOString v =
     (case v of
        NaN \<Rightarrow> None
      | Num t \<Rightarrow>
          (case YearMonthDate (t div msPerDay) of
             (y, m, d) \<Rightarrow>
               (let ms = t mod msPerDay;
                    year = (if 0 \<le> y \<and> y \<le> 9999 then pad 4 y
                            else (if y < 0 then js ''-'' else js ''+'') @ pad 6 \<bar>y\<bar>)
                in Some (year @ js ''-'' @ pad 2 (m + 1) @ js ''-'' @ pad 2 d @ js ''T''
                         @ pad 2 (ms div 3600000) @ js '':'' @ pad 2 (ms div 60000 mod 60)
                         @ js '':'' @ pad 2 (ms div 1000 mod 60) @ js ''.'' @ pad 3 (ms mod 1000)
                         @ js ''Z''))))"

definition split_T_0 :: "jsstring \<Rightarrow> jsstring" where
  "split_T_0 s = takeWhile (\<lambda>c. c \<noteq> 0x54) s"

record game =
  game_id :: nat
  game_date :: jsstring
  game_time :: jsstring
  opponent :: jsstring
  location :: jsstring
  competition :: jsstring

text \<open>
  The date of a fixture \<open>k\<close> days ahead:
  \<open>new Date(today.getFullYear(), today.getMonth(), today.getDate() + k).toISOString().split('T')[0]\<close>.
\<close>

definition fixtureDate :: "int \<Rightarrow> int \<Rightarrow> int \<Rightarrow> jsstring option" where
  "fixtureDate tza today k =
     (case getFullYearMonthDate tza today of
        (y, m, d) \<Rightarrow> map_option split_T_0 (toISOString (newDate tza y m (d + k))))"

text \<open>
  The schedule set at load, from the time value \<open>today\<close> of \<open>new Date()\<close>; \<open>None\<close>
  when \<open>toISOString\<close> throws.
\<close>

definition fetchGameSchedule :: "int \<Rightarrow> int \<Rightarrow> game list option" where
  "fetchGameSchedule tza today =
     (case (fixtureDate tza today 2, fixtureDate tza today 5, fixtureDate tza today 10) of
        (Some d1, Some d2, Some d3) \<Rightarrow>
          Some
            [\<lparr>game_id = 1, game_date = d1, game_time = js ''19:00'',
              opponent = js ''Cruzeiro'', location = js ''Mineir'' @ [0xE3] @ js ''o'',
              competition = js ''Campeonato Brasileiro''\<rparr>,
             \<lparr>game_id = 2, game_date = d2, game_time = js ''21:30'',
              opponent = js ''Flamengo'', location = js ''Maracan'' @ [0xE3],
              competition = js ''Copa do Brasil''\<rparr>,
             \<lparr>game_id = 3, game_date = d3, game_time = js ''16:00'',
              opponent = js ''Gr'' @ [0xEA] @ js ''mio'', location = js ''Arena MRV'',
              competition = js ''Campeonato Brasileiro''\<rparr>]
      | _ \<Rightarrow> None)"

section \<open>Runs of the mood tracker\<close>

text \<open>
  What can happen to the mood history: a mood button is pressed (and the store answers
  the write), or the mood subscription delivers a snapshot.
\<close>

datatype mood_event = PressMood jsstring write_outcome | MoodsDelivered

fun moodStep :: "environment \<Rightarrow> app_state \<times> store \<Rightarrow> mood_event \<Rightarrow> app_state \<times> store" where
  "moodStep env w (PressMood mood out) = recordMood env mood out w"
| "moodStep env w MoodsDelivered = onMoodsSnapshot env w"

definition runMoodEvents ::
  "environment \<Rightarrow> app_state \<times> store \<Rightarrow> mood_event list \<Rightarrow> app_state \<times> store" where
  "runMoodEvents env w evs = foldl (moodStep env) w evs"

definition newestFirst :: "int list \<Rightarrow> bool" where
  "newestFirst ts \<longleftrightarrow> sorted_wrt (\<lambda>a b. a \<ge> b) ts"

section \<open>Observations used in the statements\<close>

text \<open>The input state a user would have to enter again: canvas, text fields, colour, date.\<close>

definition inputs ::
  "app_state \<Rightarrow> 32 word list option \<times> jsstring \<times> jsstring \<times> jsstring \<times> jsstring option" where
  "inputs s = (canvas s, letterContent s, cardText s, cardBgColor s, startDate s)"

text \<open>
  A failed write as the user and the store see it: exactly one more message, the one
  given, is in the dialog; the handler called the store exactly once; no collection and
  no document changed; the input state is what it was.
\<close>

definition failureSurfacedOnce ::
  "jsstring \<Rightarrow> app_state \<times> store \<Rightarrow> app_state \<times> store \<Rightarrow> bool" where
  "failureSurfacedOnce message w w' \<longleftrightarrow>
     messageLog (fst w') = messageLog (fst w) @ [message]
     \<and> showMessageModal (fst w') \<and> modalContent (fst w') = message
     \<and> write_calls (snd w') = Suc (write_calls (snd w))
     \<and> collections (snd w') = collections (snd w)
     \<and> documents (snd w') = documents (snd w)
     \<and> inputs (fst w') = inputs (fst w)"

section \<open>Example hosts and states\<close>

text \<open>
  The date-only form \<open>YYYY-MM-DD\<close> that a date input produces, read as midnight UTC,
  as the \<open>Date\<close> constructor reads it.
\<close>

definition digitsValue :: "jsstring \<Rightarrow> int option" where
  "digitsValue s =
     (if s \<noteq> [] \<and> list_all (\<lambda>c. 0x30 \<le> c \<and> c \<le> 0x39) s
      then Some (foldl (\<lambda>n c. 10 * n + (uint c - 48)) 0 s) else None)"

definition parseDateOnly :: "jsstring \<Rightarrow> jsnum" where
  "parseDateOnly s =
     (if length s = 10 \<and> s ! 4 = 0x2D \<and> s ! 7 = 0x2D then
        (case (digitsValue (take 4 s), digitsValue (take 2 (drop 5 s)), digitsValue (drop 8 s)) of
           (Some y, Some m, Some d) \<Rightarrow>
             (if 1 \<le> m \<and> m \<le> 12 \<and> 1 \<le> d \<and> d \<le> 31
              then Num (MakeDay y (m - 1) d * msPerDay) else NaN)
         | _ \<Rightarrow> NaN)
      else NaN)"

definition exampleConfig :: firebase_config where
  "exampleConfig =
     \<lparr>apiKey = Some (js ''key''), authDomain = Some (js ''app.example.com''),
      projectId = Some (js ''app''), storageBucket = None, messagingSenderId = None,
      appId = Some (js ''1:2:web:3'')\<rparr>"

text \<open>A hosting shell that injects its configuration.\<close>

definition shellEnv :: environment where
  "shellEnv =
     \<lparr>window_defined = True, firebase_config_global = Some (JObject exampleConfig),
      initial_auth_token_global = None, app_id_global = Some (js ''wonderland''),
      process_defined = False,
      REACT_APP_FIREBASE_API_KEY = None, REACT_APP_FIREBASE_AUTH_DOMAIN = None,
      REACT_APP_FIREBASE_PROJECT_ID = None, REACT_APP_FIREBASE_STORAGE_BUCKET = None,
      REACT_APP_FIREBASE_MESSAGING_SENDER_ID = None, REACT_APP_FIREBASE_APP_ID = None,
      toDataURL = (\<lambda>px. js ''data:image/png;base64,'' @ map ucast px),
      Date_parse = parseDateOnly\<rparr>"

text \<open>
  A browser that loads the build the README describes: the six \<open>REACT_APP_\<close> variables
  are set, and no shell injects anything.
\<close>

definition readmeEnv :: environment where
  "readmeEnv =
     \<lparr>window_defined = True, firebase_config_global = None,
      initial_auth_token_global = None, app_id_global = None,
      process_defined = True,
      REACT_APP_FIREBASE_API_KEY = Some (js ''key''),
      REACT_APP_FIREBASE_AUTH_DOMAIN = Some (js ''app.example.com''),
      REACT_APP_FIREBASE_PROJECT_ID = Some (js ''app''),
      REACT_APP_FIREBASE_STORAGE_BUCKET = Some (js ''app.example.net''),
      REACT_APP_FIREBASE_MESSAGING_SENDER_ID = Some (js ''2''),
      REACT_APP_FIREBASE_APP_ID = Some (js ''1:2:web:3''),
      toDataURL = (\<lambda>px. js ''data:image/png;base64,'' @ map ucast px),
      Date_parse = parseDateOnly\<rparr>"

definition readyState :: app_state where
  "readyState =
     initial_state\<lparr>db := Some exampleConfig, auth := Some exampleConfig,
                   userId := Some (js ''uid-1''), isAuthReady := True\<rparr>"

definition emptyStore :: store where
  "emptyStore = \<lparr>collections = (\<lambda>_. []), documents = (\<lambda>_. None), write_calls = 0\<rparr>"

text \<open>
  A ready state with every input filled in, and one whose text fields hold white space only.
\<close>

definition draftState :: app_state where
  "draftState =
     readyState\<lparr>canvas := Some [0xFF000000, 0], letterContent := js ''Oi Galo'',
                 cardText := js ''Oi'', cardBgColor := js ''#000000'',
                 startDate := Some (js ''2026-10-24'')\<rparr>"

definition blankText :: jsstring where
  "blankText = [0x20, 0x9, 0xA0, 0x2003, 0xA]"

text \<open>
  Ten in the morning of 3 November 2026 in a zone one hour east of Greenwich, as a time
  value, and that zone's offset.
\<close>

definition morningInLagos :: int where
  "morningInLagos = 1793696400000"

definition offsetLagos :: int where
  "offsetLagos = 3600000"

text \<open>The offset of a zone three hours west of Greenwich, where it is six in the morning then.\<close>

definition offsetBeloHorizonte :: int where
  "offsetBeloHorizonte = - 10800000"


text \<open>A store that holds a start date for the user of \<open>readyState\<close>.\<close>

definition storeWithDate :: store where
  "storeWithDate =
     emptyStore\<lparr>documents :=
       (documents emptyStore)
         (userPath shellEnv (js ''uid-1'') ''daysCounter/data'' := Some (js ''2026-10-24''))\<rparr>"

section \<open>Basic facts\<close>

lemma trim_Nil_iff: "trim s = [] \<longleftrightarrow> (\<forall>c\<in>set s. isWhiteSpace c)"
proof
  assume "trim s = []"
  then have all: "\<forall>c\<in>set (dropWhile isWhiteSpace s). isWhiteSpace c"
    by (simp add: trim_def dropWhile_eq_Nil_conv)
  have "dropWhile isWhiteSpace s = []"
  proof (rule ccontr)
    assume ne: "dropWhile isWhiteSpace s \<noteq> []"
    then have "\<not> isWhiteSpace (hd (dropWhile isWhiteSpace s))" by (rule hd_dropWhile)
    moreover have "hd (dropWhile isWhiteSpace s) \<in> set (dropWhile isWhiteSpace s)"
      using ne by simp
    ultimately show False using all by blast
  qed
  then show "\<forall>c\<in>set s. isWhiteSpace c" by (simp add: dropWhile_eq_Nil_conv)
next
  assume "\<forall>c\<in>set s. isWhiteSpace c"
  then have "dropWhile isWhiteSpace s = []" by (simp add: dropWhile_eq_Nil_conv)
  then show "trim s = []" by (simp only: trim_def rev.simps dropWhile.simps)
qed

lemma trim_empty: "trim [] = []"
  by (simp add: trim_def)

lemma draftState_ready: "\<not> notReady draftState"
  by (simp add: notReady_def draftState_def readyState_def initial_state_def js_def)

lemma readyState_ready: "\<not> notReady readyState"
  by (simp add: notReady_def readyState_def initial_state_def js_def)

lemma initial_state_notReady: "notReady initial_state"
  by (simp add: notReady_def initial_state_def)

lemma blankText_white: "\<forall>c\<in>set blankText. isWhiteSpace c"
  by (simp add: blankText_def isWhiteSpace_def)

lemma msgWait_neq_msgLetterEmpty: "msgWaitInitSave \<noteq> msgLetterEmpty"
  by (simp add: msgWaitInitSave_def msgLetterEmpty_def js_def)

section \<open>Letters and cards\<close>

text \<open>
  C2, as amended. Saving an empty letter or an empty card leaves the store as it was (no
  record, no write attempted), leaves the input state as it was, and puts exactly one
  message in the blocking dialog: the empty-text message of the letter or card when
  the identity and the store handle are there, the wait-for-initialisation message when
  they are not.
\<close>

theorem empty_submission_rejected:
  "(letterContent s = [] \<longrightarrow>
      snd (saveLetter env out (s, st)) = st
      \<and> modalContent (fst (saveLetter env out (s, st)))
          = (if notReady s then msgWaitInitSave else msgLetterEmpty)
      \<and> showMessageModal (fst (saveLetter env out (s, st)))
      \<and> messageLog (fst (saveLetter env out (s, st)))
          = messageLog s @ [if notReady s then msgWaitInitSave else msgLetterEmpty]
      \<and> inputs (fst (saveLetter env out (s, st))) = inputs s)
   \<and> (cardText s = [] \<longrightarrow>
      snd (saveCard env out (s, st)) = st
      \<and> modalContent (fst (saveCard env out (s, st)))
          = (if notReady s then msgWaitInitSave else msgCardEmpty)
      \<and> showMessageModal (fst (saveCard env out (s, st)))
      \<and> messageLog (fst (saveCard env out (s, st)))
          = messageLog s @ [if notReady s then msgWaitInitSave else msgCardEmpty]
      \<and> inputs (fst (saveCard env out (s, st))) = inputs s)"
  by (simp add: saveLetter_def saveCard_def showAppMessage_def inputs_def trim_empty)

theorem empty_submission_rejected_witness:
  "letterContent readyState = [] \<and> cardText readyState = [] \<and> \<not> notReady readyState
   \<and> snd (saveLetter shellEnv Rejected (readyState, emptyStore)) = emptyStore
   \<and> modalContent (fst (saveLetter shellEnv Rejected (readyState, emptyStore))) = msgLetterEmpty
   \<and> snd (saveCard shellEnv Rejected (readyState, emptyStore)) = emptyStore
   \<and> modalContent (fst (saveCard shellEnv Rejected (readyState, emptyStore))) = msgCardEmpty"
proof -
  have e: "letterContent readyState = []" "cardText readyState = []"
    by (simp_all add: readyState_def initial_state_def)
  from empty_submission_rejected [of readyState shellEnv Rejected emptyStore] e readyState_ready
  show ?thesis by simp
qed

text \<open>
  C2 as stated fails before startup has finished: in the initial state the letter is
  empty, and saving it shows the wait-for-initialisation message, which is not the
  empty-letter message.
\<close>

theorem empty_letter_before_startup_counterexample:
  "letterContent initial_state = []
   \<and> modalContent (fst (saveLetter readmeEnv Rejected (initial_state, emptyStore))) = msgWaitInitSave
   \<and> msgWaitInitSave \<noteq> msgLetterEmpty"
proof -
  have "letterContent initial_state = []" by (simp add: initial_state_def)
  moreover have "modalContent (fst (saveLetter readmeEnv Rejected (initial_state, emptyStore)))
     = msgWaitInitSave"
    using initial_state_notReady by (simp add: saveLetter_def showAppMessage_def)
  ultimately show ?thesis using msgWait_neq_msgLetterEmpty by simp
qed

text \<open>
  C10. A letter or card whose text is made of white space only is rejected exactly as
  the empty text is: the store is left as it was, and the resulting state is the one
  the empty text gives (same message, same dialog), but for the text field itself,
  which keeps the white space.
\<close>

theorem whitespace_rejected_like_empty:
  assumes "\<forall>c\<in>set txt. isWhiteSpace c"
  shows "snd (saveLetter env out (s\<lparr>letterContent := txt\<rparr>, st)) = st
     \<and> fst (saveLetter env out (s\<lparr>letterContent := txt\<rparr>, st))
        = (fst (saveLetter env out (s\<lparr>letterContent := []\<rparr>, st)))\<lparr>letterContent := txt\<rparr>
     \<and> snd (saveCard env out (s\<lparr>cardText := txt\<rparr>, st)) = st
     \<and> fst (saveCard env out (s\<lparr>cardText := txt\<rparr>, st))
        = (fst (saveCard env out (s\<lparr>cardText := []\<rparr>, st)))\<lparr>cardText := txt\<rparr>"
proof -
  from assms have t: "trim txt = []" by (simp add: trim_Nil_iff)
  show ?thesis
    by (simp add: saveLetter_def saveCard_def showAppMessage_def notReady_def t trim_empty)
qed

theorem whitespace_rejected_like_empty_witness:
  "list_all isWhiteSpace blankText
   \<and> snd (saveLetter shellEnv (Acknowledged (js ''l1'') 5)
            (readyState\<lparr>letterContent := blankText\<rparr>, emptyStore)) = emptyStore
   \<and> modalContent (fst (saveLetter shellEnv (Acknowledged (js ''l1'') 5)
        (readyState\<lparr>letterContent := blankText\<rparr>, emptyStore))) = msgLetterEmpty
   \<and> snd (saveCard shellEnv (Acknowledged (js ''l1'') 5)
            (readyState\<lparr>cardText := blankText\<rparr>, emptyStore)) = emptyStore
   \<and> modalContent (fst (saveCard shellEnv (Acknowledged (js ''l1'') 5)
        (readyState\<lparr>cardText := blankText\<rparr>, emptyStore))) = msgCardEmpty"
proof -
  have l: "modalContent (fst (saveLetter shellEnv (Acknowledged (js ''l1'') 5)
        (readyState\<lparr>letterContent := []\<rparr>, emptyStore))) = msgLetterEmpty"
    by (simp add: saveLetter_def showAppMessage_def notReady_def trim_empty readyState_def
        initial_state_def js_def)
  have c: "modalContent (fst (saveCard shellEnv (Acknowledged (js ''l1'') 5)
        (readyState\<lparr>cardText := []\<rparr>, emptyStore))) = msgCardEmpty"
    by (simp add: saveCard_def showAppMessage_def notReady_def trim_empty readyState_def
        initial_state_def js_def)
  from whitespace_rejected_like_empty [OF blankText_white,
      of shellEnv "Acknowledged (js ''l1'') 5" readyState emptyStore] l c blankText_white
  show ?thesis by (simp add: list_all_iff)
qed

text \<open>
  C3. Applying a template sets the card text and the background colour to the
  template's values, whatever text and colour were there before: the result does not
  depend on them.
\<close>

theorem applyCardTemplate_overwrites:
  "cardText (applyCardTemplate t s) = tpl_text t
   \<and> cardBgColor (applyCardTemplate t s) = tpl_bgColor t
   \<and> applyCardTemplate t (s\<lparr>cardText := txt, cardBgColor := col\<rparr>) = applyCardTemplate t s"
  by (simp add: applyCardTemplate_def)

text \<open>
  C9. When a card is saved (identity and store handle there, text not blank, write
  acknowledged), the card text becomes empty and the background colour becomes
  \<open>#ffffff\<close>, while the stored card carries the text and colour that were entered.
\<close>

theorem saveCard_success_resets:
  assumes "\<not> notReady s" and "trim (cardText s) \<noteq> []"
  shows "cardText (fst (saveCard env (Acknowledged i t) (s, st))) = []
         \<and> cardBgColor (fst (saveCard env (Acknowledged i t) (s, st))) = js ''#ffffff''
         \<and> collections (snd (saveCard env (Acknowledged i t) (s, st)))
              (userPath env (the (userId s)) ''cards'')
            = collections st (userPath env (the (userId s)) ''cards'')
              @ [\<lparr>doc_id = i, doc_fields = CardF (cardText s) (cardBgColor s), doc_time = t\<rparr>]"
  using assms by (simp add: saveCard_def addDoc_def showAppMessage_def)

theorem saveCard_success_resets_witness:
  "\<not> notReady draftState \<and> trim (cardText draftState) \<noteq> []
   \<and> cardBgColor draftState = js ''#000000''
   \<and> cardText (fst (saveCard shellEnv (Acknowledged (js ''c1'') 1000)
        (draftState, emptyStore))) = []
   \<and> cardBgColor (fst (saveCard shellEnv (Acknowledged (js ''c1'') 1000)
        (draftState, emptyStore))) = js ''#ffffff''"
proof -
  have t: "trim (cardText draftState) \<noteq> []"
    by (simp add: draftState_def trim_def js_def isWhiteSpace_def)
  have c: "cardBgColor draftState = js ''#000000''"
    by (simp add: draftState_def)
  from saveCard_success_resets [OF draftState_ready t, of shellEnv "js ''c1''" 1000 emptyStore]
    draftState_ready t c
  show ?thesis by simp
qed

section \<open>Failed writes\<close>

lemma draftState_filled:
  "canvas draftState \<noteq> None" "trim (letterContent draftState) \<noteq> []"
  "trim (cardText draftState) \<noteq> []" "truthy (startDate draftState)"
  by (simp_all add: draftState_def trim_def js_def isWhiteSpace_def)

text \<open>
  C7. When the identity and the store handle are there and the store rejects the
  write of a drawing, a letter, a card, a mood, the start date or a photo, the handler
  has called the store once (no retry), the dialog holds exactly one more message (the
  error message of that handler), no collection or document has changed, and canvas,
  text fields, colour and date are what they were. And in any state whatever, a save of
  a drawing, letter or card whose write is rejected leaves these inputs alone: they are
  cleared by an acknowledged write only.
\<close>

theorem failed_write_surfaced_once:
  assumes "\<not> notReady s"
  shows "(canvas s \<noteq> None \<longrightarrow>
            failureSurfacedOnce msgDrawingError (s, st) (saveDrawing env Rejected (s, st)))
     \<and> (trim (letterContent s) \<noteq> [] \<longrightarrow>
            failureSurfacedOnce msgLetterError (s, st) (saveLetter env Rejected (s, st)))
     \<and> (trim (cardText s) \<noteq> [] \<longrightarrow>
            failureSurfacedOnce msgCardError (s, st) (saveCard env Rejected (s, st)))
     \<and> failureSurfacedOnce msgMoodError (s, st) (recordMood env mood Rejected (s, st))
     \<and> (truthy (startDate s) \<longrightarrow>
            failureSurfacedOnce msgDateError (s, st) (saveStartDate env Rejected (s, st)))
     \<and> failureSurfacedOnce msgPhotoError (s, st)
            (handlePhotoUpload env (Some result) Rejected (s, st))
     \<and> inputs (fst (saveDrawing env Rejected (s0, st0))) = inputs s0
     \<and> inputs (fst (saveLetter env Rejected (s0, st0))) = inputs s0
     \<and> inputs (fst (saveCard env Rejected (s0, st0))) = inputs s0"
proof -
  have d: "canvas s \<noteq> None \<longrightarrow>
            failureSurfacedOnce msgDrawingError (s, st) (saveDrawing env Rejected (s, st))"
    using assms
    by (auto simp: saveDrawing_def addDoc_def failureSurfacedOnce_def showAppMessage_def inputs_def)
  have l: "trim (letterContent s) \<noteq> [] \<longrightarrow>
            failureSurfacedOnce msgLetterError (s, st) (saveLetter env Rejected (s, st))"
    using assms
    by (simp add: saveLetter_def addDoc_def failureSurfacedOnce_def showAppMessage_def inputs_def)
  have c: "trim (cardText s) \<noteq> [] \<longrightarrow>
            failureSurfacedOnce msgCardError (s, st) (saveCard env Rejected (s, st))"
    using assms
    by (simp add: saveCard_def addDoc_def failureSurfacedOnce_def showAppMessage_def inputs_def)
  have m: "failureSurfacedOnce msgMoodError (s, st) (recordMood env mood Rejected (s, st))"
    using assms
    by (simp add: recordMood_def addDoc_def failureSurfacedOnce_def showAppMessage_def inputs_def)
  have t: "truthy (startDate s) \<longrightarrow>
            failureSurfacedOnce msgDateError (s, st) (saveStartDate env Rejected (s, st))"
    using assms
    by (simp add: saveStartDate_def setDoc_def failureSurfacedOnce_def showAppMessage_def inputs_def)
  have p: "failureSurfacedOnce msgPhotoError (s, st)
            (handlePhotoUpload env (Some result) Rejected (s, st))"
    using assms
    by (simp add: handlePhotoUpload_def addDoc_def failureSurfacedOnce_def showAppMessage_def
        inputs_def)
  have d0: "inputs (fst (saveDrawing env Rejected (s0, st0))) = inputs s0"
    by (simp add: saveDrawing_def addDoc_def showAppMessage_def inputs_def split: option.split)
  have l0: "inputs (fst (saveLetter env Rejected (s0, st0))) = inputs s0"
    by (simp add: saveLetter_def addDoc_def showAppMessage_def inputs_def)
  have c0: "inputs (fst (saveCard env Rejected (s0, st0))) = inputs s0"
    by (simp add: saveCard_def addDoc_def showAppMessage_def inputs_def)
  from d l c m t p d0 l0 c0 show ?thesis by blast
qed

theorem failed_write_surfaced_once_witness:
  "\<not> notReady draftState \<and> canvas draftState \<noteq> None
   \<and> trim (letterContent draftState) \<noteq> [] \<and> trim (cardText draftState) \<noteq> []
   \<and> truthy (startDate draftState)
   \<and> failureSurfacedOnce msgDrawingError (draftState, emptyStore)
        (saveDrawing shellEnv Rejected (draftState, emptyStore))
   \<and> failureSurfacedOnce msgLetterError (draftState, emptyStore)
        (saveLetter shellEnv Rejected (draftState, emptyStore))
   \<and> failureSurfacedOnce msgCardError (draftState, emptyStore)
        (saveCard shellEnv Rejected (draftState, emptyStore))
   \<and> failureSurfacedOnce msgMoodError (draftState, emptyStore)
        (recordMood shellEnv (js ''Feliz'') Rejected (draftState, emptyStore))
   \<and> failureSurfacedOnce msgDateError (draftState, emptyStore)
        (saveStartDate shellEnv Rejected (draftState, emptyStore))
   \<and> failureSurfacedOnce msgPhotoError (draftState, emptyStore)
        (handlePhotoUpload shellEnv (Some (Some (js ''data:image/png;base64,AA==''))) Rejected
           (draftState, emptyStore))"
  using failed_write_surfaced_once [OF draftState_ready, of emptyStore shellEnv "js ''Feliz''"
      "Some (js ''data:image/png;base64,AA=='')" draftState emptyStore]
    draftState_ready draftState_filled
  by blast

section \<open>Mood history\<close>

lemma recordMood_moods: "moods (fst (recordMood env mood out w)) = moods (fst w)"
  by (cases w; cases out)
     (simp_all add: recordMood_def addDoc_def showAppMessage_def)

lemma orderBy_timestamp_desc_newestFirst:
  "newestFirst (map doc_time (orderBy_timestamp_desc docs))"
proof -
  have "sorted (map doc_time (sort_key doc_time docs))" by (rule sorted_sort_key)
  then have "sorted_wrt (\<lambda>a b. a \<ge> b) (rev (map doc_time (sort_key doc_time docs)))"
    by (simp add: sorted_wrt_rev)
  then show ?thesis
    by (simp add: newestFirst_def orderBy_timestamp_desc_def rev_map)
qed

lemma onMoodsSnapshot_newestFirst:
  assumes "newestFirst (map doc_time (moods (fst w)))"
  shows "newestFirst (map doc_time (moods (fst (onMoodsSnapshot env w))))"
  using assms
  by (cases w) (simp add: onMoodsSnapshot_def orderBy_timestamp_desc_newestFirst)

lemma moodStep_newestFirst:
  assumes "newestFirst (map doc_time (moods (fst w)))"
  shows "newestFirst (map doc_time (moods (fst (moodStep env w e))))"
  using assms
  by (cases e) (simp_all add: recordMood_moods onMoodsSnapshot_newestFirst)

lemma runMoodEvents_newestFirst:
  "newestFirst (map doc_time (moods (fst w))) \<Longrightarrow>
   newestFirst (map doc_time (moods (fst (runMoodEvents env w evs))))"
  unfolding runMoodEvents_def
proof (induction evs arbitrary: w)
  case Nil
  then show ?case by simp
next
  case (Cons e evs)
  from Cons.prems have "newestFirst (map doc_time (moods (fst (moodStep env w e))))"
    by (rule moodStep_newestFirst)
  then show ?case using Cons.IH by simp
qed

lemma renderMoodHistory_times: "map snd (renderMoodHistory s) = map doc_time (moods s)"
  by (simp add: renderMoodHistory_def comp_def)

lemma feliz_triste:
  "renderMoodHistory (fst (runMoodEvents shellEnv (readyState, emptyStore)
      [PressMood (js ''Feliz'') (Acknowledged (js ''m1'') 1000),
       PressMood (js ''Triste'') (Acknowledged (js ''m2'') 2000),
       MoodsDelivered]))
   = [(MoodF (js ''Triste''), 2000), (MoodF (js ''Feliz''), 1000)]"
  by code_simp

text \<open>
  C4. Starting from a mood history that is newest first (the empty one of the initial
  state is), after any sequence of mood button presses, answered by the store in any
  way, and of deliveries of the mood subscription, the history held in the state, and
  the history view rendered from it, are ordered by decreasing timestamp.
\<close>

theorem mood_history_newest_first:
  assumes "newestFirst (map doc_time (moods s))"
  shows "newestFirst (map doc_time (moods (fst (runMoodEvents env (s, st) evs))))
     \<and> newestFirst (map snd (renderMoodHistory (fst (runMoodEvents env (s, st) evs))))"
  using runMoodEvents_newestFirst [of "(s, st)" env evs] assms
  by (simp add: renderMoodHistory_times)

theorem mood_history_newest_first_witness:
  "newestFirst (map doc_time (moods readyState))
   \<and> renderMoodHistory (fst (runMoodEvents shellEnv (readyState, emptyStore)
        [PressMood (js ''Feliz'') (Acknowledged (js ''m1'') 1000),
         PressMood (js ''Triste'') (Acknowledged (js ''m2'') 2000),
         MoodsDelivered]))
      = [(MoodF (js ''Triste''), 2000), (MoodF (js ''Feliz''), 1000)]
   \<and> newestFirst (map snd (renderMoodHistory (fst (runMoodEvents shellEnv (readyState, emptyStore)
        [PressMood (js ''Feliz'') (Acknowledged (js ''m1'') 1000),
         PressMood (js ''Triste'') (Acknowledged (js ''m2'') 2000),
         MoodsDelivered]))))"
proof -
  have h: "newestFirst (map doc_time (moods readyState))"
    by (simp add: readyState_def initial_state_def newestFirst_def)
  from mood_history_newest_first [OF h, of shellEnv emptyStore] feliz_triste h
  show ?thesis by blast
qed

section \<open>Day counter\<close>

subsection \<open>Rounding\<close>

lemma roundHalfEven_error:
  assumes "0 < d"
  shows "\<bar>2 * (roundHalfEven p d * d - p)\<bar> \<le> d"
proof -
  have p: "p = (p div d) * d + p mod d" by simp
  have r: "0 \<le> p mod d" "p mod d < d" using assms by simp_all
  have a: "(p div d) * d - p = - (p mod d)" using p by linarith
  have b: "(p div d + 1) * d - p = d - p mod d"
    using p by (simp add: algebra_simps)
  consider (lo) "2 * (p mod d) < d" | (hi) "d < 2 * (p mod d)"
    | (te) "2 * (p mod d) = d" "even (p div d)" | (tod) "2 * (p mod d) = d" "odd (p div d)"
    by linarith
  then show ?thesis
  proof cases
    case lo
    then have "roundHalfEven p d = p div d" by (simp add: roundHalfEven_def)
    then show ?thesis using a r lo by simp
  next
    case hi
    then have "roundHalfEven p d = p div d + 1" by (simp add: roundHalfEven_def)
    then show ?thesis using b r hi by simp
  next
    case te
    then have "roundHalfEven p d = p div d" by (simp add: roundHalfEven_def)
    then show ?thesis using a r te by simp
  next
    case tod
    then have "roundHalfEven p d = p div d + 1" by (simp add: roundHalfEven_def)
    then show ?thesis using b r tod by simp
  qed
qed

lemma doubleOfInt_exact:
  assumes "\<bar>x\<bar> < 2 ^ 53"
  shows "doubleOfInt x = x"
proof -
  have "bitlen \<bar>x\<bar> \<le> 53" using assms by (simp add: bitlen_le_iff_power)
  then have "nat (bitlen \<bar>x\<bar> - 53) = 0" by simp
  then have "doubleOfInt x = sgn x * roundHalfEven \<bar>x\<bar> 1"
    by (simp add: doubleOfInt_def)
  also have "roundHalfEven \<bar>x\<bar> 1 = \<bar>x\<bar>" by (simp add: roundHalfEven_def)
  finally show ?thesis by (simp add: mult_sgn_abs)
qed

lemma ceiling_days_bounds:
  fixes a d :: int
  assumes "0 < d"
  shows "(\<lceil>real_of_int a / real_of_int d\<rceil> - 1) * d < a"
    and "a \<le> \<lceil>real_of_int a / real_of_int d\<rceil> * d"
proof -
  let ?n = "\<lceil>real_of_int a / real_of_int d\<rceil>"
  have d: "0 < real_of_int d" using assms by simp
  have "real_of_int a / real_of_int d \<le> real_of_int ?n" by (rule le_of_int_ceiling)
  then have "real_of_int a \<le> real_of_int ?n * real_of_int d"
    by (simp only: pos_divide_le_eq [OF d])
  then have "real_of_int a \<le> real_of_int (?n * d)" by simp
  then show "a \<le> ?n * d" by (simp only: of_int_le_iff)
  have "real_of_int ?n - 1 < real_of_int a / real_of_int d"
    using ceiling_correct [of "real_of_int a / real_of_int d"] by linarith
  then have "(real_of_int ?n - 1) * real_of_int d < real_of_int a"
    by (simp only: pos_less_divide_eq [OF d])
  then have "real_of_int ((?n - 1) * d) < real_of_int a" by simp
  then show "(?n - 1) * d < a" by (simp only: of_int_less_iff)
qed

lemma ceiling_rounded_quotient:
  fixes a b m :: int and K :: nat
  assumes b: "0 < b" and bK: "b < 2 * 2 ^ K"
    and err: "\<bar>2 * (m * b - a * 2 ^ K)\<bar> \<le> b"
  shows "\<lceil>real_of_int m / 2 ^ K\<rceil> = \<lceil>real_of_int a / real_of_int b\<rceil>"
proof -
  let ?N = "\<lceil>real_of_int a / real_of_int b\<rceil>"
  let ?P = "(2::int) ^ K"
  have P: "0 < ?P" by simp
  have lo: "(?N - 1) * b < a" and hi: "a \<le> ?N * b"
    by (rule ceiling_days_bounds [OF b])+
  define X where "X = m * b"
  define Y where "Y = a * ?P"
  define Z where "Z = ?N * b * ?P"
  have "\<bar>2 * (X - Y)\<bar> \<le> b" using err by (simp only: X_def Y_def)
  then have err': "2 * (X - Y) \<le> b" "- b \<le> 2 * (X - Y)"
    by (simp_all only: abs_le_iff minus_le_iff)
  have up: "m \<le> ?N * ?P"
  proof (rule ccontr)
    assume "\<not> m \<le> ?N * ?P"
    then have "?N * ?P + 1 \<le> m" by simp
    then have "(?N * ?P + 1) * b \<le> m * b" using b by (simp only: mult_right_mono)
    then have 1: "Z + b \<le> X" by (simp add: algebra_simps X_def Z_def)
    have 2: "Y \<le> Z" unfolding Y_def Z_def using hi P by (simp only: mult_right_mono)
    from 1 2 err' b show False by arith
  qed
  have down: "(?N - 1) * ?P < m"
  proof (rule ccontr)
    assume "\<not> (?N - 1) * ?P < m"
    then have "m \<le> (?N - 1) * ?P" by simp
    then have "m * b \<le> (?N - 1) * ?P * b" using b by (simp only: mult_right_mono)
    then have 1: "X \<le> Z - b * ?P" by (simp add: algebra_simps X_def Z_def)
    from lo have "(?N - 1) * b \<le> a - 1" by simp
    then have "(?N - 1) * b * ?P \<le> (a - 1) * ?P" using P by (simp only: mult_right_mono)
    then have 2: "Z - b * ?P \<le> Y - ?P" by (simp add: algebra_simps Y_def Z_def)
    define Q where "Q = ?P"
    from 1 2 have "X \<le> Y - Q" unfolding Q_def by (rule order_trans)
    moreover have "b < 2 * Q" using bK by (simp only: Q_def)
    ultimately show False using err' by arith
  qed
  have rP: "0 < (2::real) ^ K" by simp
  have "real_of_int m \<le> real_of_int (?N * ?P)" using up by (simp only: of_int_le_iff)
  then have u: "real_of_int m / 2 ^ K \<le> real_of_int ?N"
    by (simp add: pos_divide_le_eq [OF rP])
  have "real_of_int ((?N - 1) * ?P) < real_of_int m" using down by (simp only: of_int_less_iff)
  then have l: "real_of_int ?N - 1 < real_of_int m / 2 ^ K"
    by (simp add: pos_less_divide_eq [OF rP])
  from l u show ?thesis by (simp add: ceiling_eq_iff)
qed

lemma bitlen_msPerDay: "bitlen msPerDay = 27"
  by code_simp

lemma msPerDay_pos: "0 < msPerDay"
  by (simp add: msPerDay_def)

lemma doubleDiv_ceiling:
  assumes a0: "0 \<le> a" and a53: "a < 2 ^ 53"
  shows "\<lceil>doubleDiv a msPerDay\<rceil> = \<lceil>real_of_int a / real_of_int msPerDay\<rceil>"
proof (cases "a = 0")
  case True
  then show ?thesis by (simp add: doubleDiv_def)
next
  case False
  with a0 have apos: "0 < a" by simp
  have La: "bitlen a \<le> 53" using a53 by (simp add: bitlen_le_iff_power)
  define k0 where "k0 = 53 + bitlen msPerDay - bitlen a"
  define k where "k = (if msPerDay * 2 ^ nat (- k0) * 2 ^ 53 \<le> a * 2 ^ nat k0 then k0 - 1 else k0)"
  have k0: "27 \<le> k0" using La by (simp add: k0_def bitlen_msPerDay)
  then have k: "26 \<le> k" by (simp add: k_def)
  define K where "K = nat k"
  have K: "26 \<le> K" using k by (simp add: K_def)
  have nk: "nat (- k) = 0" using k by simp
  define m where "m = roundHalfEven (a * 2 ^ nat k) (msPerDay * 2 ^ nat (- k))"
  have "doubleDiv a msPerDay = real_of_int (m * 2 ^ nat (- k)) / real_of_int (2 ^ nat k)"
    using False
    unfolding doubleDiv_def Let_def k0_def [symmetric] k_def [symmetric] m_def [symmetric]
    by (simp only: if_False)
  then have dd: "doubleDiv a msPerDay = real_of_int m / 2 ^ K"
    by (simp add: nk K_def)
  have m: "m = roundHalfEven (a * 2 ^ K) msPerDay"
    by (simp add: m_def nk K_def)
  have err: "\<bar>2 * (m * msPerDay - a * 2 ^ K)\<bar> \<le> msPerDay"
    unfolding m by (rule roundHalfEven_error [OF msPerDay_pos])
  have "(2::int) ^ 26 \<le> 2 ^ K" using K by (rule power_increasing) simp
  moreover have "msPerDay < 2 * 2 ^ 26" by (simp add: msPerDay_def)
  ultimately have bK: "msPerDay < 2 * 2 ^ K" by linarith
  show ?thesis
    unfolding dd by (rule ceiling_rounded_quotient [OF msPerDay_pos bK err])
qed

subsection \<open>The derived value\<close>

lemma daysKnownEffect_held:
  assumes t: "truthy (startDate s)" and p: "Date_parse env (the (startDate s)) = Num start"
    and w: "withinDoublePrecision today start"
  shows "\<exists>n. daysKnown (daysKnownEffect env today s) = Num n \<and> wholeDaysBetween today start n"
proof -
  let ?d = "\<bar>today - start\<bar>"
  let ?n = "\<lceil>real_of_int ?d / real_of_int msPerDay\<rceil>"
  from w have b: "?d < 2 ^ 53" by (simp add: withinDoublePrecision_def)
  then have e: "doubleOfInt (today - start) = today - start" by (rule doubleOfInt_exact)
  have c: "\<lceil>doubleDiv ?d msPerDay\<rceil> = ?n"
    using b by (intro doubleDiv_ceiling) simp_all
  have "daysKnown (daysKnownEffect env today s) = Num ?n"
    using t p by (simp add: daysKnownEffect_def e c)
  moreover have "wholeDaysBetween today start ?n"
    unfolding wholeDaysBetween_def
    using ceiling_days_bounds [OF msPerDay_pos, of ?d] by blast
  ultimately show ?thesis by blast
qed

lemma daysKnownEffect_unset:
  assumes "\<not> truthy (startDate s)"
  shows "daysKnown (daysKnownEffect env today s) = Num 0"
    and "renderDaysCounter (daysKnownEffect env today s) = unsetPage"
  using assms by (simp_all add: daysKnownEffect_def renderDaysCounter_def unsetPage_def)

lemma onDaysCounterSnapshot_stored:
  assumes "subscribed s"
    and "documents st (userPath env (the (userId s)) ''daysCounter/data'') = Some d" and "d \<noteq> []"
  shows "startDate (fst (onDaysCounterSnapshot env (s, st))) = Some d"
  using assms by (simp add: onDaysCounterSnapshot_def)

lemma onDaysCounterSnapshot_none:
  assumes "subscribed s"
    and "documents st (userPath env (the (userId s)) ''daysCounter/data'') = None"
  shows "startDate (fst (onDaysCounterSnapshot env (s, st))) = None"
  using assms by (simp add: onDaysCounterSnapshot_def)

lemma stored_example:
  "subscribed readyState"
  "documents storeWithDate (userPath shellEnv (the (userId readyState)) ''daysCounter/data'')
     = Some (js ''2026-10-24'')"
  "js ''2026-10-24'' \<noteq> []"
  "Date_parse shellEnv (js ''2026-10-24'') = Num 1792800000000"
  "withinDoublePrecision morningInLagos 1792800000000"
  by code_simp+

lemma stored_days:
  "daysKnown (daysKnownEffect shellEnv morningInLagos
      (fst (onDaysCounterSnapshot shellEnv (readyState, storeWithDate)))) = Num 11"
  by code_simp

lemma picked_days:
  "daysKnown (daysKnownEffect shellEnv morningInLagos
      (onStartDateChange (js ''2026-10-24'') readyState)) = Num 11"
  by code_simp

lemma nothing_stored_example:
  "documents emptyStore (userPath shellEnv (the (userId readyState)) ''daysCounter/data'') = None"
  "\<not> truthy (startDate readyState)"
  by code_simp+

text \<open>
  C1, as amended. The derived value follows the start date the page holds: the stored
  one once the day-counter subscription has delivered it, or one picked in the date
  input, saved or not. When that date denotes a time value \<open>start\<close>, with today and
  \<open>start\<close> less than \<open>2^53\<close> milliseconds apart, the derived value is the ceiling of
  the absolute difference between today and \<open>start\<close> in days. When the subscription
  delivers that nothing is stored, and whenever the page holds no date, the derived
  value is 0 and the page is in its unset state: an empty date input and no paragraph,
  neither a count nor the hint.
\<close>

theorem daysKnown_follows_held_start_date:
  "(subscribed s
      \<and> documents st (userPath env (the (userId s)) ''daysCounter/data'') = Some d \<and> d \<noteq> []
      \<and> Date_parse env d = Num start \<and> withinDoublePrecision today start \<longrightarrow>
      (\<exists>n. daysKnown (daysKnownEffect env today (fst (onDaysCounterSnapshot env (s, st)))) = Num n
           \<and> wholeDaysBetween today start n))
   \<and> (v \<noteq> [] \<and> Date_parse env v = Num start \<and> withinDoublePrecision today start \<longrightarrow>
      (\<exists>n. daysKnown (daysKnownEffect env today (onStartDateChange v s)) = Num n
           \<and> wholeDaysBetween today start n))
   \<and> (subscribed s
      \<and> documents st (userPath env (the (userId s)) ''daysCounter/data'') = None \<longrightarrow>
      daysKnown (daysKnownEffect env today (fst (onDaysCounterSnapshot env (s, st)))) = Num 0
      \<and> renderDaysCounter (daysKnownEffect env today (fst (onDaysCounterSnapshot env (s, st))))
          = unsetPage)
   \<and> (\<not> truthy (startDate s) \<longrightarrow>
      daysKnown (daysKnownEffect env today s) = Num 0
      \<and> renderDaysCounter (daysKnownEffect env today s) = unsetPage)"
proof (intro conjI impI)
  assume h: "subscribed s
      \<and> documents st (userPath env (the (userId s)) ''daysCounter/data'') = Some d \<and> d \<noteq> []
      \<and> Date_parse env d = Num start \<and> withinDoublePrecision today start"
  then have sd: "startDate (fst (onDaysCounterSnapshot env (s, st))) = Some d"
    by (simp add: onDaysCounterSnapshot_stored)
  show "\<exists>n. daysKnown (daysKnownEffect env today (fst (onDaysCounterSnapshot env (s, st)))) = Num n
           \<and> wholeDaysBetween today start n"
    using h sd by (intro daysKnownEffect_held) simp_all
next
  assume h: "v \<noteq> [] \<and> Date_parse env v = Num start \<and> withinDoublePrecision today start"
  show "\<exists>n. daysKnown (daysKnownEffect env today (onStartDateChange v s)) = Num n
           \<and> wholeDaysBetween today start n"
    using h by (intro daysKnownEffect_held) (simp_all add: onStartDateChange_def)
next
  assume h: "subscribed s
      \<and> documents st (userPath env (the (userId s)) ''daysCounter/data'') = None"
  then have n: "\<not> truthy (startDate (fst (onDaysCounterSnapshot env (s, st))))"
    by (simp add: onDaysCounterSnapshot_none)
  show "daysKnown (daysKnownEffect env today (fst (onDaysCounterSnapshot env (s, st)))) = Num 0"
    by (rule daysKnownEffect_unset(1) [OF n])
  show "renderDaysCounter (daysKnownEffect env today (fst (onDaysCounterSnapshot env (s, st))))
          = unsetPage"
    by (rule daysKnownEffect_unset(2) [OF n])
next
  assume n: "\<not> truthy (startDate s)"
  show "daysKnown (daysKnownEffect env today s) = Num 0"
    by (rule daysKnownEffect_unset(1) [OF n])
  show "renderDaysCounter (daysKnownEffect env today s) = unsetPage"
    by (rule daysKnownEffect_unset(2) [OF n])
qed

theorem daysKnown_follows_held_start_date_witness:
  "subscribed readyState
   \<and> documents storeWithDate (userPath shellEnv (the (userId readyState)) ''daysCounter/data'')
       = Some (js ''2026-10-24'')
   \<and> Date_parse shellEnv (js ''2026-10-24'') = Num 1792800000000
   \<and> withinDoublePrecision morningInLagos 1792800000000
   \<and> daysKnown (daysKnownEffect shellEnv morningInLagos
        (fst (onDaysCounterSnapshot shellEnv (readyState, storeWithDate)))) = Num 11
   \<and> daysKnown (daysKnownEffect shellEnv morningInLagos
        (onStartDateChange (js ''2026-10-24'') readyState)) = Num 11
   \<and> wholeDaysBetween morningInLagos 1792800000000 11
   \<and> documents emptyStore (userPath shellEnv (the (userId readyState)) ''daysCounter/data'') = None
   \<and> daysKnown (daysKnownEffect shellEnv morningInLagos
        (fst (onDaysCounterSnapshot shellEnv (readyState, emptyStore)))) = Num 0
   \<and> renderDaysCounter (daysKnownEffect shellEnv morningInLagos
        (fst (onDaysCounterSnapshot shellEnv (readyState, emptyStore)))) = unsetPage
   \<and> \<not> truthy (startDate readyState)"
proof -
  note inst = daysKnown_follows_held_start_date [of readyState storeWithDate shellEnv
      "js ''2026-10-24''" 1792800000000 morningInLagos "js ''2026-10-24''"]
  from inst stored_example stored_days
  have a: "wholeDaysBetween morningInLagos 1792800000000 11" by auto
  note inst0 = daysKnown_follows_held_start_date [of readyState emptyStore shellEnv
      "js ''2026-10-24''" 1792800000000 morningInLagos "js ''2026-10-24''"]
  from inst0 stored_example(1) nothing_stored_example
  have b: "daysKnown (daysKnownEffect shellEnv morningInLagos
        (fst (onDaysCounterSnapshot shellEnv (readyState, emptyStore)))) = Num 0
     \<and> renderDaysCounter (daysKnownEffect shellEnv morningInLagos
        (fst (onDaysCounterSnapshot shellEnv (readyState, emptyStore)))) = unsetPage"
    by blast
  from a b stored_example stored_days picked_days nothing_stored_example
  show ?thesis by blast
qed

text \<open>
  C1 as stated fails when nothing is stored and a date is picked in the input: the
  subscription has delivered that there is no stored date, the user picks 24 October
  2026, and at once the derived value is 11 and the page shows the count of 11 days,
  with the store still holding no start date.
\<close>

theorem picked_date_counted_with_nothing_stored_counterexample:
  "documents emptyStore (userPath shellEnv (the (userId readyState)) ''daysCounter/data'') = None
   \<and> daysKnown (daysKnownEffect shellEnv morningInLagos
        (onStartDateChange (js ''2026-10-24'')
           (fst (onDaysCounterSnapshot shellEnv (readyState, emptyStore))))) = Num 11
   \<and> paragraphs (renderDaysCounter (daysKnownEffect shellEnv morningInLagos
        (onStartDateChange (js ''2026-10-24'')
           (fst (onDaysCounterSnapshot shellEnv (readyState, emptyStore))))))
       = [DaysPassed 11]"
  by code_simp

text \<open>
  Beyond \<open>2^53\<close> milliseconds the derived value can differ from the ceiling: with
  today at the upper end of the range of \<open>Date\<close> and a start date far in the past, the
  difference is rounded to a whole number of days, and the derived value is one less
  than the ceiling of the exact difference.
\<close>

lemma daysKnown_beyond_double_precision:
  "\<lceil>doubleDiv \<bar>doubleOfInt (8640000000000000 - (- 2956411699200001))\<bar> msPerDay\<rceil> = 134217728
   \<and> \<lceil>real_of_int \<bar>8640000000000000 - (- 2956411699200001)\<bar> / real_of_int msPerDay\<rceil>
       = 134217729"
  by code_simp

section \<open>Startup\<close>

text \<open>
  C5. In a browser that loads the build the README describes (the \<open>REACT_APP_\<close>
  variables set, nothing injected by a shell), \<open>window\<close> exists, so the variables are
  never read: the configuration stays empty, the incomplete-configuration message is
  shown and nothing is initialised, although the API key and the auth domain are there.
  A configuration injected by a shell is used.
\<close>

theorem readme_build_not_initialized:
  "truthy (REACT_APP_FIREBASE_API_KEY readmeEnv)
   \<and> truthy (REACT_APP_FIREBASE_AUTH_DOMAIN readmeEnv)
   \<and> db (initFirebase readmeEnv initial_state) = None
   \<and> auth (initFirebase readmeEnv initial_state) = None
   \<and> modalContent (initFirebase readmeEnv initial_state) = msgConfigIncomplete
   \<and> db (initFirebase shellEnv initial_state) = Some exampleConfig"
  by (simp add: readmeEnv_def shellEnv_def exampleConfig_def initFirebase_def
      checkAndInitialize_def emptyConfig_def showAppMessage_def initial_state_def js_def)

text \<open>
  C6. With no previous session, when the sign-in call rejects, the listener ends
  without setting anything: the user id stays \<open>null\<close> and the ready flag stays false,
  and no random identifier is used. The random identifier is used only when the call
  resolves and leaves no current user.
\<close>

theorem rejected_signin_no_fallback:
  "authStateChanged env
     \<lparr>signInWithCustomToken = SignInRejected, signInAnonymously = SignInRejected\<rparr>
     randomUUID None s = s
   \<and> userId (authStateChanged shellEnv
        \<lparr>signInWithCustomToken = SignInRejected, signInAnonymously = SignInRejected\<rparr>
        randomUUID None (initFirebase shellEnv initial_state)) = None
   \<and> \<not> isAuthReady (authStateChanged shellEnv
        \<lparr>signInWithCustomToken = SignInRejected, signInAnonymously = SignInRejected\<rparr>
        randomUUID None (initFirebase shellEnv initial_state))
   \<and> userId (authStateChanged shellEnv
        \<lparr>signInWithCustomToken = SignInRejected, signInAnonymously = SignInResolved None\<rparr>
        randomUUID None (initFirebase shellEnv initial_state)) = Some randomUUID"
  by (simp add: authStateChanged_def shellEnv_def initFirebase_def checkAndInitialize_def
      exampleConfig_def initial_state_def js_def)

section \<open>Game schedule\<close>

text \<open>
  C8. One hour east of Greenwich, at ten in the morning of 3 November 2026, the three
  fixtures are dated 4, 7 and 12 November: one, four and nine days after today, not two,
  five and ten. At the same instant three hours west of Greenwich, where it is also
  3 November, they are dated 5, 8 and 13 November.
\<close>

theorem schedule_east_of_greenwich:
  "getFullYearMonthDate offsetLagos morningInLagos = (2026, 10, 3)
   \<and> map_option (map game_date) (fetchGameSchedule offsetLagos morningInLagos)
       = Some [js ''2026-11-04'', js ''2026-11-07'', js ''2026-11-12'']
   \<and> getFullYearMonthDate offsetBeloHorizonte morningInLagos = (2026, 10, 3)
   \<and> map_option (map game_date) (fetchGameSchedule offsetBeloHorizonte morningInLagos)
       = Some [js ''2026-11-05'', js ''2026-11-08'', js ''2026-11-13'']"
  by code_simp

end
